theory Spec2Isabelle
  imports Main
begin

section \<open>Annotation objects\<close>

text \<open>
  The module \<^verbatim>\<open>dataclass_mage/utils/typing_compat.py\<close> inspects the objects that
  Python's \<^verbatim>\<open>typing\<close> machinery builds for type annotations. An object is modelled by
  what the module reads of it: its runtime class, and the attributes it carries. The
  classes are those the source names: \<^verbatim>\<open>typing._GenericAlias\<close> with its subclasses
  \<^verbatim>\<open>typing._VariadicGenericAlias\<close> and \<^verbatim>\<open>_AnnotatedAlias\<close>, \<^verbatim>\<open>typing._SpecialForm\<close>,
  and, for the modern strategy, \<^verbatim>\<open>types.GenericAlias\<close> and \<^verbatim>\<open>types.UnionType\<close>.
  Not every host runtime has all of them: which names the host's \<^verbatim>\<open>typing\<close> module
  defines is a parameter of the function that reads them when it is called
  (\<^verbatim>\<open>_is_base_generic\<close>).
\<close>

text \<open>The failures the module can raise or let through.\<close>

datatype error = AttributeError | KeyError | TypeError | NameError | SyntaxError

text \<open>
  Runtime classes. The classes the module names in an \<^verbatim>\<open>isinstance\<close> test are
  constructors of their own; every other class (\<^verbatim>\<open>type\<close>, a metaclass, \<^verbatim>\<open>int\<close>, ...)
  is \<open>OtherClass\<close> with its qualified name.
\<close>

datatype pyclass =
    builtins_str
  | typing_ForwardRef
  | typing_TypeVar
  | typing_SpecialForm
  | typing_GenericAlias
  | typing_VariadicGenericAlias
  | AnnotatedAlias_class
  | types_GenericAlias
  | types_UnionType
  | OtherClass string

text \<open>
  \<^verbatim>\<open>_VariadicGenericAlias\<close> and \<^verbatim>\<open>_AnnotatedAlias\<close> are subclasses of
  \<^verbatim>\<open>typing._GenericAlias\<close>; the other classes above are unrelated.
\<close>

fun issubclass :: "pyclass \<Rightarrow> pyclass \<Rightarrow> bool" where
  "issubclass typing_VariadicGenericAlias d =
     (d = typing_VariadicGenericAlias \<or> d = typing_GenericAlias)"
| "issubclass AnnotatedAlias_class d =
     (d = AnnotatedAlias_class \<or> d = typing_GenericAlias)"
| "issubclass c d = (c = d)"

text \<open>
  The text of a deferred annotation, kept as the expression it spells (the form in which a
  placeholder compiles and evaluates it): a name, a subscription \<^verbatim>\<open>f[a, b]\<close>, the
  lightweight union \<^verbatim>\<open>a | b\<close>, or any other expression, kept verbatim.
\<close>

datatype texpr =
    TName string
  | TSub texpr "texpr list"
  | TOr texpr texpr
  | TOther string

datatype alias_kind = PlainAlias | VariadicAlias | AnnotatedAlias

text \<open>
  Objects.
  \<^item> \<open>Str t\<close>: a \<^verbatim>\<open>str\<close> holding annotation text;
  \<^item> \<open>ForwardRef t is_argument\<close>: a placeholder built from annotation text;
  \<^item> \<open>TypeVar n\<close>: a type variable;
  \<^item> \<open>SpecialForm m n\<close>: the \<^verbatim>\<open>typing._SpecialForm\<close> of module \<open>m\<close> whose
    \<^verbatim>\<open>_name\<close> is \<open>n\<close> (\<^verbatim>\<open>typing.Union\<close>, \<^verbatim>\<open>typing.ClassVar\<close>, ...);
  \<^item> \<open>GenericAlias k special origin args params\<close>: an instance of
    \<^verbatim>\<open>typing._GenericAlias\<close> (of the subclass \<open>k\<close> says), whose initialiser always
    records \<^verbatim>\<open>__origin__\<close>, \<^verbatim>\<open>__args__\<close> and \<^verbatim>\<open>__parameters__\<close>; \<open>special\<close>
    marks the bare aliases \<^verbatim>\<open>typing.List\<close>, \<^verbatim>\<open>typing.Dict\<close>, ...;
  \<^item> \<open>TypesGenericAlias origin args\<close>: a native compact generic \<^verbatim>\<open>list[int]\<close>
    (\<^verbatim>\<open>types.GenericAlias\<close>);
  \<^item> \<open>UnionType args\<close>: a native compact union \<^verbatim>\<open>int | str\<close>
    (\<^verbatim>\<open>types.UnionType\<close>), which records its members and no origin;
  \<^item> \<open>Tuple\<close>, \<open>PyList\<close>, \<open>FrozenSet\<close>, \<open>Dict\<close>: the containers found as attribute
    values;
  \<^item> \<open>Object c n m attrs\<close>: any other object, and every ordinary class: \<open>c\<close> names its
    runtime class (its metaclass, when it is a class), \<open>n\<close> is its own name, \<open>m\<close> its
    \<^verbatim>\<open>__module__\<close> when it has one, \<open>attrs\<close> its further attributes.
\<close>

datatype pyobj =
    Str texpr
  | ForwardRef texpr bool
  | TypeVar string
  | SpecialForm string string
  | GenericAlias alias_kind bool pyobj "pyobj list" "pyobj list"
  | TypesGenericAlias pyobj "pyobj list"
  | UnionType "pyobj list"
  | Tuple "pyobj list"
  | PyList "pyobj list"
  | FrozenSet "string set"
  | Dict "(string \<times> pyobj) list"
  | Object string string "string option" "(string \<times> pyobj) list"

type_synonym namespace = "(string \<times> pyobj) list"

text \<open>\<^verbatim>\<open>type(obj)\<close>.\<close>

fun type_of :: "pyobj \<Rightarrow> pyclass" where
  "type_of (Str t) = builtins_str"
| "type_of (ForwardRef t a) = typing_ForwardRef"
| "type_of (TypeVar n) = typing_TypeVar"
| "type_of (SpecialForm m n) = typing_SpecialForm"
| "type_of (GenericAlias PlainAlias s origin args params) = typing_GenericAlias"
| "type_of (GenericAlias VariadicAlias s origin args params) = typing_VariadicGenericAlias"
| "type_of (GenericAlias AnnotatedAlias s origin args params) = AnnotatedAlias_class"
| "type_of (TypesGenericAlias origin args) = types_GenericAlias"
| "type_of (UnionType args) = types_UnionType"
| "type_of (Tuple xs) = OtherClass ''tuple''"
| "type_of (PyList xs) = OtherClass ''list''"
| "type_of (FrozenSet ks) = OtherClass ''frozenset''"
| "type_of (Dict kvs) = OtherClass ''dict''"
| "type_of (Object c n m attrs) = OtherClass c"

text \<open>\<^verbatim>\<open>isinstance(obj, classes)\<close> for a tuple of classes.\<close>

definition isinstance :: "pyobj \<Rightarrow> pyclass list \<Rightarrow> bool" where
  "isinstance obj classes = list_ex (issubclass (type_of obj)) classes"

text \<open>
  Attribute access \<^verbatim>\<open>obj.name\<close> for the attributes the module reads through a
  \<^verbatim>\<open>try\<close> or lets fail: it raises \<^verbatim>\<open>AttributeError\<close> when the object has no such
  attribute.
\<close>

fun getattr :: "pyobj \<Rightarrow> string \<Rightarrow> error + pyobj" where
  "getattr (GenericAlias k s origin args params) a =
     (if a = ''__origin__'' then Inr origin
      else if a = ''__args__'' then Inr (Tuple args)
      else if a = ''__parameters__'' then Inr (Tuple params)
      else Inl AttributeError)"
| "getattr (TypesGenericAlias origin args) a =
     (if a = ''__origin__'' then Inr origin
      else if a = ''__args__'' then Inr (Tuple args)
      else Inl AttributeError)"
| "getattr (UnionType args) a =
     (if a = ''__args__'' then Inr (Tuple args) else Inl AttributeError)"
| "getattr (Object c n m attrs) a =
     (case map_of attrs a of None \<Rightarrow> Inl AttributeError | Some v \<Rightarrow> Inr v)"
| "getattr obj a = Inl AttributeError"

text \<open>
  The string-valued attributes the module reads, of the objects it reads them of:
  \<^verbatim>\<open>_name\<close> of a special form and \<^verbatim>\<open>__module__\<close> of a declaring class.
\<close>

fun getattr_str :: "pyobj \<Rightarrow> string \<Rightarrow> error + string" where
  "getattr_str (SpecialForm m n) a =
     (if a = ''_name'' then Inr n
      else if a = ''__module__'' then Inr m
      else Inl AttributeError)"
| "getattr_str (Object c n m attrs) a =
     (if a = ''__module__''
      then (case m of None \<Rightarrow> Inl AttributeError | Some x \<Rightarrow> Inr x)
      else if a = ''__name__'' then Inr n
      else Inl AttributeError)"
| "getattr_str obj a = Inl AttributeError"

text \<open>\<^verbatim>\<open>len(obj)\<close>.\<close>

fun len :: "pyobj \<Rightarrow> error + nat" where
  "len (Tuple xs) = Inr (length xs)"
| "len (PyList xs) = Inr (length xs)"
| "len (Dict kvs) = Inr (length kvs)"
| "len obj = Inl TypeError"

section \<open>The objects of the typing module that the source names\<close>

definition builtin_class :: "string \<Rightarrow> pyobj" where
  "builtin_class n = Object ''type'' n (Some ''builtins'') []"

definition collections_class :: "string \<Rightarrow> pyobj" where
  "collections_class n = Object ''type'' n (Some ''collections'') []"

definition abc_class :: "string \<Rightarrow> pyobj" where
  "abc_class n = Object ''abc.ABCMeta'' n (Some ''collections.abc'') []"

definition py_int :: pyobj where
  "py_int = builtin_class ''int''"

definition py_str :: pyobj where
  "py_str = builtin_class ''str''"

definition typing_Union :: pyobj where
  "typing_Union = SpecialForm ''typing'' ''Union''"

definition typing_Generic :: pyobj where
  "typing_Generic = Object ''type'' ''Generic'' (Some ''typing'') []"

text \<open>
  The class bound to \<^verbatim>\<open>typing._Protocol\<close> on a host that defines this name (Python 3.7).
  Later hosts do not define it: a read of the name goes through \<open>typing_getattr\<close> below
  and fails there.
\<close>

definition typing_Protocol :: pyobj where
  "typing_Protocol = Object ''typing._ProtocolMeta'' ''_Protocol'' (Some ''typing'') []"

text \<open>
  The names of the host's \<^verbatim>\<open>typing\<close> module that \<^verbatim>\<open>_is_base_generic\<close> reads, as far
  as the host defines them: on a legacy host (Python 3.7) and on a modern host (Python
  3.10 and later, the hosts of the modern strategy), which has neither
  \<^verbatim>\<open>typing._Protocol\<close> nor \<^verbatim>\<open>typing._VariadicGenericAlias\<close>.
\<close>

definition typing_names_legacy :: "string list" where
  "typing_names_legacy =
     [''Generic'', ''_Protocol'', ''_GenericAlias'', ''_VariadicGenericAlias'', ''_SpecialForm'']"

definition typing_names_modern :: "string list" where
  "typing_names_modern = [''Generic'', ''_GenericAlias'', ''_SpecialForm'']"

text \<open>
  \<^verbatim>\<open>typing.name\<close>, read when a function runs: the value bound to the name, or
  \<^verbatim>\<open>AttributeError\<close> when the host's module does not define it.
\<close>

definition typing_getattr :: "string list \<Rightarrow> string \<Rightarrow> 'a \<Rightarrow> error + 'a" where
  "typing_getattr typing_dir name bound =
     (if name \<in> set typing_dir then Inr bound else Inl AttributeError)"

text \<open>
  The bare generic aliases in the layout of the legacy hosts (before Python 3.9):
  instances of \<^verbatim>\<open>typing._GenericAlias\<close> marked \<open>special\<close>, with the type variables of
  their origin. Later hosts build a bare alias as an instance of
  \<^verbatim>\<open>typing._SpecialGenericAlias\<close>, a class that is neither \<^verbatim>\<open>typing._GenericAlias\<close>
  nor a subclass of it: \<open>special_alias\<close>.
\<close>

definition special_alias :: "string \<Rightarrow> pyobj \<Rightarrow> pyobj" where
  "special_alias n origin =
     Object ''typing._SpecialGenericAlias'' n (Some ''typing'') [(''__origin__'', origin)]"

definition bare_alias :: "alias_kind \<Rightarrow> pyobj \<Rightarrow> string list \<Rightarrow> pyobj" where
  "bare_alias k origin tvars = GenericAlias k True origin (map TypeVar tvars) (map TypeVar tvars)"

definition typing_Tuple :: pyobj where
  "typing_Tuple = bare_alias VariadicAlias (builtin_class ''tuple'') []"

definition typing_List :: pyobj where
  "typing_List = bare_alias PlainAlias (builtin_class ''list'') [''T'']"

definition typing_Dict :: pyobj where
  "typing_Dict = bare_alias PlainAlias (builtin_class ''dict'') [''KT'', ''VT'']"

definition typing_Set :: pyobj where
  "typing_Set = bare_alias PlainAlias (builtin_class ''set'') [''T'']"

definition typing_FrozenSet :: pyobj where
  "typing_FrozenSet = bare_alias PlainAlias (builtin_class ''frozenset'') [''T_co'']"

definition typing_Type :: pyobj where
  "typing_Type = bare_alias PlainAlias (builtin_class ''type'') [''CT_co'']"

definition typing_Deque :: pyobj where
  "typing_Deque = bare_alias PlainAlias (collections_class ''deque'') [''T'']"

definition typing_DefaultDict :: pyobj where
  "typing_DefaultDict = bare_alias PlainAlias (collections_class ''defaultdict'') [''KT'', ''VT'']"

definition typing_OrderedDict :: pyobj where
  "typing_OrderedDict = bare_alias PlainAlias (collections_class ''OrderedDict'') [''KT'', ''VT'']"

definition typing_Counter :: pyobj where
  "typing_Counter = bare_alias PlainAlias (collections_class ''Counter'') [''T'']"

definition typing_ChainMap :: pyobj where
  "typing_ChainMap = bare_alias PlainAlias (collections_class ''ChainMap'') [''KT'', ''VT'']"

text \<open>
  \<^verbatim>\<open>typing.Sequence\<close>, bare, on a legacy host and on a modern host, and
  \<^verbatim>\<open>typing.Sequence[int]\<close>, which is an instance of \<^verbatim>\<open>typing._GenericAlias\<close> on both.
\<close>

definition typing_Sequence_legacy :: pyobj where
  "typing_Sequence_legacy = bare_alias PlainAlias (abc_class ''Sequence'') [''T_co'']"

definition typing_Sequence_modern :: pyobj where
  "typing_Sequence_modern = special_alias ''Sequence'' (abc_class ''Sequence'')"

definition Sequence_of_int :: pyobj where
  "Sequence_of_int = GenericAlias PlainAlias False (abc_class ''Sequence'') [py_int] []"

text \<open>
  Modelled from the spec: the literal-value marker \<^verbatim>\<open>PyLiteral\<close>, which the module
  imports from \<^verbatim>\<open>type_def\<close> (not part of the sources at hand).
\<close>

definition PyLiteral :: pyobj where
  "PyLiteral = SpecialForm ''typing'' ''Literal''"

text \<open>
  Modelled from the spec: the classes a deferred reference can have,
  \<^verbatim>\<open>FREF.__constraints__\<close> of \<^verbatim>\<open>type_def\<close> (not part of the sources at hand): a
  deferred reference is textual or a placeholder.
\<close>

definition FREF_constraints :: "pyclass list" where
  "FREF_constraints = [builtins_str, typing_ForwardRef]"

text \<open>
  A structural record class with the required keys \<open>a\<close>, \<open>b\<close> and the optional key
  \<open>c\<close>, as the class-definition machinery leaves it.
\<close>

definition Movie :: pyobj where
  "Movie = Object ''typing._TypedDictMeta'' ''Movie'' (Some ''films'')
     [(''__required_keys__'', FrozenSet {''a'', ''b''}),
      (''__optional_keys__'', FrozenSet {''c''})]"

text \<open>
  A structural-record helper of the function-like kind: a factory whose
  \<^verbatim>\<open>__mro_entries__\<close> names the class that really becomes the base.
\<close>

definition typing_TypedDict :: pyobj where
  "typing_TypedDict = Object ''function'' ''TypedDict'' (Some ''typing'')
     [(''__mro_entries__'',
       Tuple [Object ''typing._TypedDictMeta'' ''TypedDict'' (Some ''typing'') []])]"

section \<open>Structural-record metaclasses\<close>

text \<open>
  The metaclass Python gives to \<^verbatim>\<open>class RealPyTypedDict(PyTypedDict): pass\<close>. A helper
  that is a function-like factory stands for its real base through \<^verbatim>\<open>__mro_entries__\<close>;
  the new class has the type of that base.
\<close>

definition resolve_base :: "pyobj \<Rightarrow> pyobj" where
  "resolve_base b =
     (case getattr b ''__mro_entries__'' of
        Inr (Tuple (c # cs)) \<Rightarrow> c
      | _ \<Rightarrow> b)"

definition type_of_RealPyTypedDict :: "pyobj \<Rightarrow> pyclass" where
  "type_of_RealPyTypedDict PyTypedDict = type_of (resolve_base PyTypedDict)"

text \<open>
  The loop at import time: \<^verbatim>\<open>TypedDictTypes\<close> starts empty and receives
  \<^verbatim>\<open>type(RealPyTypedDict)\<close> for each helper of \<^verbatim>\<open>PyTypedDicts\<close>, a table of
  \<^verbatim>\<open>type_def\<close> that is taken as a parameter.
\<close>

fun TypedDictTypes_loop :: "pyobj list \<Rightarrow> pyclass list \<Rightarrow> pyclass list" where
  "TypedDictTypes_loop [] acc = acc"
| "TypedDictTypes_loop (PyTypedDict # rest) acc =
     TypedDictTypes_loop rest (acc @ [type_of_RealPyTypedDict PyTypedDict])"

definition TypedDictTypes :: "pyobj list \<Rightarrow> pyclass list" where
  "TypedDictTypes PyTypedDicts = TypedDictTypes_loop PyTypedDicts []"

section \<open>The module's functions\<close>

text \<open>
  Names with a leading underscore in the source carry the prefix \<open>priv_\<close> here, and the
  argument \<^verbatim>\<open>raise_\<close> is \<open>raise_flag\<close>. The flag
  \<^verbatim>\<open>PY310_OR_ABOVE\<close> of \<^verbatim>\<open>constants\<close> selects the strategy when the module is
  imported; the strategy-dependent definitions take it as their first argument.
\<close>

text \<open>\<^verbatim>\<open>_get_typing_locals()\<close>.\<close>

definition priv_get_typing_locals :: namespace where
  "priv_get_typing_locals =
     [(''Union'', typing_Union),
      (''tuple'', typing_Tuple),
      (''list'', typing_List),
      (''dict'', typing_Dict),
      (''set'', typing_Set),
      (''frozenset'', typing_FrozenSet),
      (''type'', typing_Type),
      (''deque'', typing_Deque),
      (''defaultdict'', typing_DefaultDict),
      (''OrderedDict'', typing_OrderedDict),
      (''Counter'', typing_Counter),
      (''ChainMap'', typing_ChainMap)]"

text \<open>
  \<^verbatim>\<open>get_keys_for_typed_dict(cls)\<close>: two attribute reads, left to right, neither of them
  guarded.
\<close>

definition get_keys_for_typed_dict :: "pyobj \<Rightarrow> error + (pyobj \<times> pyobj)" where
  "get_keys_for_typed_dict cls =
     (case getattr cls ''__required_keys__'' of
        Inl e \<Rightarrow> Inl e
      | Inr required_keys \<Rightarrow>
          (case getattr cls ''__optional_keys__'' of
             Inl e \<Rightarrow> Inl e
           | Inr optional_keys \<Rightarrow> Inr (required_keys, optional_keys)))"

definition priv_is_annotated :: "pyobj \<Rightarrow> bool" where
  "priv_is_annotated cls = isinstance cls [AnnotatedAlias_class]"

text \<open>
  \<^verbatim>\<open>_is_base_generic(cls)\<close>, with every read a possible failure, in the order in which
  Python evaluates them: the names of the \<^verbatim>\<open>typing\<close> module are read when the function
  runs (\<open>typing_dir\<close> says which of them the host defines), the left operand of \<^verbatim>\<open>in\<close>
  before the members of the set display.
\<close>

definition priv_is_base_generic :: "string list \<Rightarrow> pyobj \<Rightarrow> error + bool" where
  "priv_is_base_generic typing_dir cls =
     (case typing_getattr typing_dir ''_GenericAlias'' typing_GenericAlias of
        Inl e \<Rightarrow> Inl e
      | Inr GenericAlias_class \<Rightarrow>
     if isinstance cls [GenericAlias_class] then
       (case getattr cls ''__origin__'' of
          Inl e \<Rightarrow> Inl e
        | Inr origin \<Rightarrow>
       (case typing_getattr typing_dir ''Generic'' typing_Generic of
          Inl e \<Rightarrow> Inl e
        | Inr Generic_class \<Rightarrow>
       (case typing_getattr typing_dir ''_Protocol'' typing_Protocol of
          Inl e \<Rightarrow> Inl e
        | Inr Protocol_class \<Rightarrow>
       if origin \<in> {Generic_class, Protocol_class} then Inr False
       else
       (case typing_getattr typing_dir ''_VariadicGenericAlias'' typing_VariadicGenericAlias of
          Inl e \<Rightarrow> Inl e
        | Inr VariadicGenericAlias_class \<Rightarrow>
       if isinstance cls [VariadicGenericAlias_class] then Inr True
       else
       (case getattr cls ''__parameters__'' of
          Inl e \<Rightarrow> Inl e
        | Inr parameters \<Rightarrow>
       (case len parameters of
          Inl e \<Rightarrow> Inl e
        | Inr n \<Rightarrow> Inr (n > 0)))))))
     else
       (case typing_getattr typing_dir ''_SpecialForm'' typing_SpecialForm of
          Inl e \<Rightarrow> Inl e
        | Inr SpecialForm_class \<Rightarrow>
       if isinstance cls [SpecialForm_class] then
         (case getattr_str cls ''_name'' of
            Inl e \<Rightarrow> Inl e
          | Inr name \<Rightarrow> Inr (name \<in> {''ClassVar'', ''Union'', ''Optional''}))
       else Inr False))"

text \<open>\<^verbatim>\<open>is_literal(cls)\<close>: the \<^verbatim>\<open>except AttributeError\<close> lets any other failure through.\<close>

definition is_literal :: "pyobj \<Rightarrow> error + bool" where
  "is_literal cls =
     (case getattr cls ''__origin__'' of
        Inr origin \<Rightarrow> Inr (origin = PyLiteral)
      | Inl e \<Rightarrow> if e = AttributeError then Inr False else Inl e)"

text \<open>The strategy-dependent bindings, \<open>PY310_OR_ABOVE\<close> first.\<close>

definition BASE_GENERIC_TYPES :: "bool \<Rightarrow> pyclass list" where
  "BASE_GENERIC_TYPES PY310_OR_ABOVE =
     (if PY310_OR_ABOVE
      then [typing_GenericAlias, typing_SpecialForm, types_GenericAlias, types_UnionType]
      else [typing_GenericAlias, typing_SpecialForm])"

definition TYPING_LOCALS :: "bool \<Rightarrow> namespace option" where
  "TYPING_LOCALS PY310_OR_ABOVE =
     (if PY310_OR_ABOVE then None else Some [(''Union'', typing_Union)])"

text \<open>
  Modelled from the spec: \<^verbatim>\<open>repl_or_with_union\<close> of \<^verbatim>\<open>string_conv\<close> (not part of
  the sources at hand), which rewrites every occurrence of the lightweight union notation
  into the heavy form \<^verbatim>\<open>Union[a, b]\<close>.
\<close>

fun repl_or_with_union :: "texpr \<Rightarrow> texpr" where
  "repl_or_with_union (TOr a b) =
     TSub (TName ''Union'') [repl_or_with_union a, repl_or_with_union b]"
| "repl_or_with_union (TSub f xs) = TSub (repl_or_with_union f) (map repl_or_with_union xs)"
| "repl_or_with_union (TName n) = TName n"
| "repl_or_with_union (TOther s) = TOther s"

text \<open>Whether a text still has the lightweight union notation somewhere.\<close>

fun has_or :: "texpr \<Rightarrow> bool" where
  "has_or (TOr a b) = True"
| "has_or (TSub f xs) = (has_or f \<or> list_ex has_or xs)"
| "has_or (TName n) = False"
| "has_or (TOther s) = False"

text \<open>\<^verbatim>\<open>PyForwardRef(text, is_argument=...)\<close>, the placeholder constructor.\<close>

definition PyForwardRef :: "texpr \<Rightarrow> bool \<Rightarrow> pyobj" where
  "PyForwardRef t is_argument = ForwardRef t is_argument"

definition priv_process_forward_annotation :: "bool \<Rightarrow> texpr \<Rightarrow> pyobj" where
  "priv_process_forward_annotation PY310_OR_ABOVE base_type =
     (if PY310_OR_ABOVE then PyForwardRef base_type False
      else PyForwardRef (repl_or_with_union base_type) False)"

definition priv_get_origin :: "bool \<Rightarrow> pyobj \<Rightarrow> bool \<Rightarrow> error + pyobj" where
  "priv_get_origin PY310_OR_ABOVE cls raise_flag =
     (if PY310_OR_ABOVE \<and> isinstance cls [types_UnionType] then Inr typing_Union
      else (case getattr cls ''__origin__'' of
              Inr origin \<Rightarrow> Inr origin
            | Inl e \<Rightarrow>
                if e = AttributeError then (if raise_flag then Inl e else Inr cls)
                else Inl e))"

text \<open>\<^verbatim>\<open>_get_named_tuple_field_types(cls, raise_)\<close>; Python's \<^verbatim>\<open>None\<close> is \<open>None\<close>.\<close>

definition priv_get_named_tuple_field_types :: "pyobj \<Rightarrow> bool \<Rightarrow> error + pyobj option" where
  "priv_get_named_tuple_field_types cls raise_flag =
     (case getattr cls ''__annotations__'' of
        Inr annotations \<Rightarrow> Inr (Some annotations)
      | Inl e \<Rightarrow>
          if e = AttributeError then (if raise_flag then Inl e else Inr None)
          else Inl e)"

text \<open>\<^verbatim>\<open>is_typed_dict\<close>: \<^verbatim>\<open>type(cls) in TypedDictTypes\<close>.\<close>

definition is_typed_dict :: "pyobj list \<Rightarrow> pyobj \<Rightarrow> error + bool" where
  "is_typed_dict PyTypedDicts cls =
     Inr (type_of cls \<in> set (TypedDictTypes PyTypedDicts))"

definition is_generic :: "bool \<Rightarrow> pyobj \<Rightarrow> bool" where
  "is_generic PY310_OR_ABOVE cls = isinstance cls (BASE_GENERIC_TYPES PY310_OR_ABOVE)"

definition is_base_generic :: "string list \<Rightarrow> pyobj \<Rightarrow> error + bool" where
  "is_base_generic typing_dir cls = priv_is_base_generic typing_dir cls"

section \<open>The host runtime's constructors and decomposition primitive\<close>

text \<open>
  Modelled from the spec: the union constructor \<^verbatim>\<open>Union[...]\<close> of the host runtime's
  \<^verbatim>\<open>typing\<close> module (not part of the repository). It flattens nested unions, removes
  duplicates keeping the first occurrence, and collapses a single remaining member to that
  member.
\<close>

fun flatten_unions :: "pyobj list \<Rightarrow> pyobj list" where
  "flatten_unions [] = []"
| "flatten_unions (GenericAlias k s origin args params # ps) =
     (if origin = typing_Union then args @ flatten_unions ps
      else GenericAlias k s origin args params # flatten_unions ps)"
| "flatten_unions (p # ps) = p # flatten_unions ps"

fun remove_dups :: "pyobj list \<Rightarrow> pyobj list \<Rightarrow> pyobj list" where
  "remove_dups seen [] = []"
| "remove_dups seen (p # ps) =
     (if p \<in> set seen then remove_dups seen ps else p # remove_dups (p # seen) ps)"

fun type_vars_of :: "pyobj \<Rightarrow> pyobj list" where
  "type_vars_of (TypeVar n) = [TypeVar n]"
| "type_vars_of (GenericAlias k s origin args params) = params"
| "type_vars_of obj = []"

definition collect_type_vars :: "pyobj list \<Rightarrow> pyobj list" where
  "collect_type_vars types = remove_dups [] (concat (map type_vars_of types))"

definition union_of :: "pyobj list \<Rightarrow> pyobj" where
  "union_of parameters =
     (case remove_dups [] (flatten_unions parameters) of
        [p] \<Rightarrow> p
      | ps \<Rightarrow> GenericAlias PlainAlias False typing_Union ps (collect_type_vars ps))"

definition Union_getitem :: "pyobj list \<Rightarrow> error + pyobj" where
  "Union_getitem parameters =
     (if parameters = [] then Inl TypeError else Inr (union_of parameters))"

text \<open>
  Modelled from the spec: subscription \<^verbatim>\<open>alias[items]\<close> of a generic alias of the host
  runtime (not part of the repository), which substitutes the items for the alias's type
  variables, in nested aliases too, and rebuilds a union through the union constructor.
\<close>

fun subs_tvars :: "(pyobj \<times> pyobj) list \<Rightarrow> pyobj \<Rightarrow> pyobj" where
  "subs_tvars subs (TypeVar n) =
     (case map_of subs (TypeVar n) of None \<Rightarrow> TypeVar n | Some v \<Rightarrow> v)"
| "subs_tvars subs (GenericAlias k s origin args params) =
     (if origin = typing_Union then union_of (map (subs_tvars subs) args)
      else GenericAlias k False origin (map (subs_tvars subs) args)
             (collect_type_vars (map (subs_tvars subs) args)))"
| "subs_tvars subs obj = obj"

fun GenericAlias_getitem :: "pyobj \<Rightarrow> pyobj list \<Rightarrow> error + pyobj" where
  "GenericAlias_getitem (GenericAlias k s origin args params) items =
     (if k = VariadicAlias \<and> s
      then Inr (GenericAlias k False origin items (collect_type_vars items))
      else if params = [] \<or> length items \<noteq> length params then Inl TypeError
      else Inr (subs_tvars (zip params items) (GenericAlias k s origin args params)))"
| "GenericAlias_getitem obj items = Inl TypeError"





text \<open>
  The decision rule of \<^verbatim>\<open>is_base_generic\<close> in the words of the specification, by the
  shape of the annotation.
\<close>

fun base_generic_rule :: "pyobj \<Rightarrow> bool" where
  "base_generic_rule (GenericAlias k s origin args params) =
     (if origin = typing_Generic \<or> origin = typing_Protocol then False
      else if k = VariadicAlias then True
      else params \<noteq> [])"
| "base_generic_rule (SpecialForm m n) = (n = ''ClassVar'' \<or> n = ''Union'' \<or> n = ''Optional'')"
| "base_generic_rule obj = False"

text \<open>
  The public functions with a keyword argument that has a default take it as an option:
  \<open>None\<close> is the call that leaves the argument out.
\<close>

definition get_origin :: "bool \<Rightarrow> pyobj \<Rightarrow> bool option \<Rightarrow> error + pyobj" where
  "get_origin PY310_OR_ABOVE cls raise_flag =
     priv_get_origin PY310_OR_ABOVE cls (case raise_flag of None \<Rightarrow> False | Some r \<Rightarrow> r)"

definition get_named_tuple_field_types :: "pyobj \<Rightarrow> bool option \<Rightarrow> error + pyobj option" where
  "get_named_tuple_field_types cls raise_flag =
     priv_get_named_tuple_field_types cls (case raise_flag of None \<Rightarrow> True | Some r \<Rightarrow> r)"

definition is_annotated :: "pyobj \<Rightarrow> bool" where
  "is_annotated cls = priv_is_annotated cls"

text \<open>
  \<^verbatim>\<open>eval_forward_ref(base_type, cls)\<close>. The evaluator \<^verbatim>\<open>typing._eval_type\<close> belongs
  to the host runtime and is a parameter: it receives the placeholder, the globals of the
  declaring class's module and the strategy's locals. \<^verbatim>\<open>sys.modules\<close> is a parameter
  as well.
\<close>

type_synonym evaluator = "pyobj \<Rightarrow> namespace \<Rightarrow> namespace option \<Rightarrow> error + pyobj"

definition eval_forward_ref ::
  "evaluator \<Rightarrow> bool \<Rightarrow> (string \<times> namespace) list \<Rightarrow> pyobj \<Rightarrow> pyobj \<Rightarrow> error + pyobj" where
  "eval_forward_ref eval_type PY310_OR_ABOVE sys_modules base_type cls =
     (let base_type' =
        (case base_type of
           Str t \<Rightarrow> priv_process_forward_annotation PY310_OR_ABOVE t
         | _ \<Rightarrow> base_type)
      in case getattr_str cls ''__module__'' of
           Inl e \<Rightarrow> Inl e
         | Inr m \<Rightarrow>
             (case map_of sys_modules m of
                None \<Rightarrow> Inl KeyError
              | Some base_globals \<Rightarrow>
                  eval_type base_type' base_globals (TYPING_LOCALS PY310_OR_ABOVE)))"

definition eval_forward_ref_if_needed ::
  "evaluator \<Rightarrow> bool \<Rightarrow> (string \<times> namespace) list \<Rightarrow> pyobj \<Rightarrow> pyobj \<Rightarrow> error + pyobj" where
  "eval_forward_ref_if_needed eval_type PY310_OR_ABOVE sys_modules base_type base_cls =
     (if isinstance base_type FREF_constraints
      then eval_forward_ref eval_type PY310_OR_ABOVE sys_modules base_type base_cls
      else Inr base_type)"

section \<open>The host's evaluation of a placeholder\<close>

text \<open>
  Modelled from the spec: the evaluator \<^verbatim>\<open>typing._eval_type\<close> of the host runtime (not
  part of the repository), for the placeholders whose text is made of names and of
  subscriptions of \<^verbatim>\<open>typing.Union\<close> and of bare generic aliases by classes and resolved
  aliases. A name is looked up in the locals, then in the globals; the namespace of a
  module is taken to include the builtins, which its \<^verbatim>\<open>__builtins__\<close> entry gives access
  to. A name bound nowhere fails with \<^verbatim>\<open>NameError\<close>, and the failure of a part is the
  failure of the whole, the subscripted expression evaluated before the items. The result
  is \<open>None\<close> for everything the model does not cover (other expressions, other
  subscriptions, results that are not plain types): nothing is said about those.
\<close>

definition lookup_name :: "namespace \<Rightarrow> namespace \<Rightarrow> string \<Rightarrow> error + pyobj" where
  "lookup_name localns globalns n =
     (case map_of localns n of
        Some v \<Rightarrow> Inr v
      | None \<Rightarrow> (case map_of globalns n of Some v \<Rightarrow> Inr v | None \<Rightarrow> Inl NameError))"

text \<open>
  The values a subscription takes as items, and an evaluation returns, as they are: a
  class whose metaclass is \<^verbatim>\<open>type\<close> (\<^verbatim>\<open>typing.Generic\<close> apart), and a parameterized alias
  of such a class, or a union, whose arguments are such values.
\<close>

fun is_plain_type :: "pyobj \<Rightarrow> bool" where
  "is_plain_type (Object c n m attrs) = (c = ''type'' \<and> Object c n m attrs \<noteq> typing_Generic)"
| "is_plain_type (GenericAlias k s origin args params) =
     (k = PlainAlias \<and> \<not> s \<and> (origin = typing_Union \<or> is_plain_type origin)
      \<and> list_all is_plain_type args)"
| "is_plain_type obj = False"

definition subscribe :: "pyobj \<Rightarrow> pyobj list \<Rightarrow> (error + pyobj) option" where
  "subscribe v items =
     (if items = [] \<or> \<not> list_all is_plain_type items then None
      else if v = typing_Union then Some (Union_getitem items)
      else (case v of
              GenericAlias k s origin args params \<Rightarrow>
                if k = PlainAlias \<and> s then Some (GenericAlias_getitem v items) else None
            | _ \<Rightarrow> None))"

fun eval_expr :: "namespace \<Rightarrow> namespace \<Rightarrow> texpr \<Rightarrow> (error + pyobj) option"
  and eval_exprs :: "namespace \<Rightarrow> namespace \<Rightarrow> texpr list \<Rightarrow> (error + pyobj list) option"
  where
  "eval_expr localns globalns (TName n) = Some (lookup_name localns globalns n)"
| "eval_expr localns globalns (TSub f xs) =
     (case eval_expr localns globalns f of
        None \<Rightarrow> None
      | Some (Inl e) \<Rightarrow> Some (Inl e)
      | Some (Inr v) \<Rightarrow>
          (case eval_exprs localns globalns xs of
             None \<Rightarrow> None
           | Some (Inl e) \<Rightarrow> Some (Inl e)
           | Some (Inr items) \<Rightarrow> subscribe v items))"
| "eval_expr localns globalns (TOr a b) = None"
| "eval_expr localns globalns (TOther s) = None"
| "eval_exprs localns globalns [] = Some (Inr [])"
| "eval_exprs localns globalns (x # xs) =
     (case eval_expr localns globalns x of
        None \<Rightarrow> None
      | Some (Inl e) \<Rightarrow> Some (Inl e)
      | Some (Inr v) \<Rightarrow>
          (case eval_exprs localns globalns xs of
             None \<Rightarrow> None
           | Some (Inl e) \<Rightarrow> Some (Inl e)
           | Some (Inr vs) \<Rightarrow> Some (Inr (v # vs))))"

definition eval_placeholder ::
  "namespace \<Rightarrow> namespace \<Rightarrow> texpr \<Rightarrow> (error + pyobj) option" where
  "eval_placeholder localns globalns t =
     (case eval_expr localns globalns t of
        None \<Rightarrow> None
      | Some (Inl e) \<Rightarrow> Some (Inl e)
      | Some (Inr v) \<Rightarrow> if is_plain_type v then Some (Inr v) else None)"

text \<open>
  An evaluator is the host's when it does, on every placeholder the model covers, what the
  model says. What it does elsewhere is left open.
\<close>

definition host_evaluator :: "evaluator \<Rightarrow> bool" where
  "host_evaluator eval_type =
     (\<forall>t a globalns localns r.
        eval_placeholder localns globalns t = Some r \<longrightarrow>
        eval_type (ForwardRef t a) globalns (Some localns) = r)"

text \<open>
  One such evaluator; without locals the globals serve as locals, as in the host.
\<close>

definition reference_eval_type :: evaluator where
  "reference_eval_type t globalns localns =
     (case t of
        ForwardRef e a \<Rightarrow>
          (case eval_placeholder (case localns of None \<Rightarrow> globalns | Some l \<Rightarrow> l) globalns e of
             Some r \<Rightarrow> r
           | None \<Rightarrow> Inl TypeError)
      | _ \<Rightarrow> Inr t)"

text \<open>
  The namespace of a module that binds no name of its own, as far as the examples read it
  (the builtin classes \<^verbatim>\<open>int\<close> and \<^verbatim>\<open>str\<close>), the module table that holds it under the
  name \<open>m\<close>, and the text \<^verbatim>\<open>defaultdict[str, int]\<close>.
\<close>

definition builtins_only :: namespace where
  "builtins_only = [(''int'', py_int), (''str'', py_str)]"

definition module_with_builtins :: "(string \<times> namespace) list" where
  "module_with_builtins = [(''m'', builtins_only)]"

definition defaultdict_text :: texpr where
  "defaultdict_text = TSub (TName ''defaultdict'') [TName ''str'', TName ''int'']"

section \<open>Properties\<close>

subsection \<open>Auxiliary facts\<close>

lemma getattr_error: "getattr obj a = Inl e \<Longrightarrow> e = AttributeError"
  by (cases obj) (auto split: if_splits option.splits)

lemma getattr_cases:
  "getattr obj a = Inl AttributeError \<or> (\<exists>v. getattr obj a = Inr v)"
  using getattr_error [of obj a] by (cases "getattr obj a") auto

lemma isinstance_GenericAlias:
  "isinstance cls [typing_GenericAlias] =
     (\<exists>k s origin args params. cls = GenericAlias k s origin args params)"
proof (cases cls)
  case (GenericAlias k s origin args params)
  then show ?thesis by (cases k) (simp_all add: isinstance_def)
qed (simp_all add: isinstance_def)

lemma isinstance_FREF:
  "isinstance obj FREF_constraints = ((\<exists>t. obj = Str t) \<or> (\<exists>t a. obj = ForwardRef t a))"
proof (cases obj)
  case (GenericAlias k s origin args params)
  then show ?thesis by (cases k) (simp_all add: isinstance_def FREF_constraints_def)
qed (simp_all add: isinstance_def FREF_constraints_def)

lemma TypedDictTypes_loop_eq:
  "TypedDictTypes_loop ps acc = acc @ map type_of_RealPyTypedDict ps"
  by (induction ps arbitrary: acc) simp_all

lemma TypedDictTypes_eq:
  "TypedDictTypes ps = map type_of_RealPyTypedDict ps"
  by (simp add: TypedDictTypes_def TypedDictTypes_loop_eq)

lemma repl_or_with_union_no_or: "\<not> has_or (repl_or_with_union t)"
  by (induction t) (auto simp: list_ex_iff)

lemma repl_or_with_union_unchanged: "\<not> has_or t \<Longrightarrow> repl_or_with_union t = t"
  by (induction t) (auto simp: list_ex_iff map_idI)

lemma repl_or_with_union_idem:
  "repl_or_with_union (repl_or_with_union t) = repl_or_with_union t"
  by (simp add: repl_or_with_union_no_or repl_or_with_union_unchanged)

lemma host_evaluatorD:
  "host_evaluator eval_type \<Longrightarrow> eval_placeholder localns globalns t = Some r \<Longrightarrow>
     eval_type (ForwardRef t a) globalns (Some localns) = r"
  by (simp add: host_evaluator_def)

lemma reference_eval_type_host: "host_evaluator reference_eval_type"
  by (simp add: host_evaluator_def reference_eval_type_def)

lemma eval_forward_ref_legacy_text:
  "eval_forward_ref eval_type False sys_modules (Str t) cls =
     (case getattr_str cls ''__module__'' of
        Inl e \<Rightarrow> Inl e
      | Inr m \<Rightarrow>
          (case map_of sys_modules m of
             None \<Rightarrow> Inl KeyError
           | Some base_globals \<Rightarrow>
               eval_type (ForwardRef (repl_or_with_union t) False) base_globals
                 (Some [(''Union'', typing_Union)])))"
  by (simp add: eval_forward_ref_def priv_process_forward_annotation_def PyForwardRef_def
      TYPING_LOCALS_def split: sum.splits option.splits)

lemma priv_get_origin_no_union:
  assumes "\<not> (P \<and> isinstance cls [types_UnionType])"
  shows "priv_get_origin P cls r =
           (case getattr cls ''__origin__'' of
              Inr origin \<Rightarrow> Inr origin
            | Inl e \<Rightarrow> if r then Inl AttributeError else Inr cls)"
  using assms getattr_error [of cls "''__origin__''"]
  by (auto simp: priv_get_origin_def split: sum.splits)

subsection \<open>Origin extraction\<close>

text \<open>
  C3. Under the modern strategy (\<open>PY310_OR_ABOVE\<close> true), \<^verbatim>\<open>get_origin\<close> of an annotation
  written in the native compact union syntax is the canonical union marker
  \<^verbatim>\<open>typing.Union\<close>, whatever its members and whether the raise flag is left out, off or
  on.
\<close>

theorem get_origin_compact_union:
  "get_origin True (UnionType args) raise_flag = Inr typing_Union"
  by (simp add: get_origin_def priv_get_origin_def isinstance_def)

text \<open>
  C2, as stated, fails: under the modern strategy a native compact union records no origin
  attribute, yet \<^verbatim>\<open>get_origin\<close> neither raises on it with the flag on nor returns it
  unchanged with the flag off; the guard on \<^verbatim>\<open>types.UnionType\<close> answers first.
\<close>

theorem get_origin_no_origin_attribute_counterexample:
  "getattr (UnionType [py_int, py_str]) ''__origin__'' = Inl AttributeError
   \<and> get_origin True (UnionType [py_int, py_str]) (Some True) = Inr typing_Union
   \<and> get_origin True (UnionType [py_int, py_str]) (Some False) \<noteq> Inr (UnionType [py_int, py_str])"
  by (simp add: get_origin_def priv_get_origin_def isinstance_def typing_Union_def)

text \<open>
  C2, amended. For every annotation \<open>cls\<close> that has no recorded origin attribute and is
  not a native compact union under the modern strategy, \<^verbatim>\<open>get_origin(cls, raise_=True)\<close>
  raises the missing-attribute failure, and \<^verbatim>\<open>get_origin(cls, raise_=False)\<close>, like the
  call that leaves the flag out, returns \<open>cls\<close> itself. In particular, for every ordinary
  (concrete, non-generic) class \<open>T\<close>, under either strategy, \<^verbatim>\<open>is_generic(T)\<close> is false,
  and \<^verbatim>\<open>get_origin(T, raise_=False)\<close> is \<open>T\<close> when \<open>T\<close> has no origin attribute.
\<close>

theorem get_origin_no_origin_attribute:
  assumes "getattr cls ''__origin__'' = Inl AttributeError"
      and "\<not> (PY310_OR_ABOVE \<and> isinstance cls [types_UnionType])"
  shows "get_origin PY310_OR_ABOVE cls (Some True) = Inl AttributeError
         \<and> get_origin PY310_OR_ABOVE cls (Some False) = Inr cls
         \<and> get_origin PY310_OR_ABOVE cls None = Inr cls
         \<and> is_generic PY310_OR_ABOVE (Object c n m attrs) = False
         \<and> (map_of attrs ''__origin__'' = None \<longrightarrow>
              get_origin PY310_OR_ABOVE (Object c n m attrs) (Some False)
                = Inr (Object c n m attrs))"
proof -
  have a: "get_origin PY310_OR_ABOVE cls (Some True) = Inl AttributeError"
    using assms by (simp add: get_origin_def priv_get_origin_no_union)
  have b: "get_origin PY310_OR_ABOVE cls (Some False) = Inr cls"
    using assms by (simp add: get_origin_def priv_get_origin_no_union)
  have c: "get_origin PY310_OR_ABOVE cls None = Inr cls"
    using assms by (simp add: get_origin_def priv_get_origin_no_union)
  have d: "is_generic PY310_OR_ABOVE (Object c n m attrs) = False"
    by (simp add: is_generic_def isinstance_def BASE_GENERIC_TYPES_def)
  have e: "map_of attrs ''__origin__'' = None \<longrightarrow>
             get_origin PY310_OR_ABOVE (Object c n m attrs) (Some False)
               = Inr (Object c n m attrs)"
    by (simp add: get_origin_def priv_get_origin_def isinstance_def)
  from a b c d e show ?thesis by simp
qed

theorem get_origin_no_origin_attribute_witness:
  "getattr py_int ''__origin__'' = Inl AttributeError
   \<and> \<not> (True \<and> isinstance py_int [types_UnionType])
   \<and> get_origin True py_int (Some True) = Inl AttributeError
   \<and> get_origin True py_int (Some False) = Inr py_int
   \<and> get_origin True py_int None = Inr py_int
   \<and> is_generic True py_int = False
   \<and> map_of ([] :: (string \<times> pyobj) list) ''__origin__'' = None"
proof -
  have h1: "getattr py_int ''__origin__'' = Inl AttributeError"
    by (simp add: py_int_def builtin_class_def)
  have h2: "\<not> (True \<and> isinstance py_int [types_UnionType])"
    by (simp add: py_int_def builtin_class_def isinstance_def)
  show ?thesis
    using h1 h2
      get_origin_no_origin_attribute [OF h1 h2, of "''type''" "''int''" "Some ''builtins''" "[]"]
    by (simp add: py_int_def builtin_class_def)
qed

subsection \<open>Classification\<close>

text \<open>
  C4. On a host whose \<^verbatim>\<open>typing\<close> module has neither \<^verbatim>\<open>_Protocol\<close> nor
  \<^verbatim>\<open>_VariadicGenericAlias\<close> (every host of the modern strategy), \<^verbatim>\<open>is_base_generic\<close>
  does not follow the decision rule: for every instance of \<^verbatim>\<open>typing._GenericAlias\<close>,
  the sequence of integers among them, it raises the missing-attribute failure at the
  read of \<^verbatim>\<open>typing._Protocol\<close>, and for the bare sequence generic, which is no instance
  of \<^verbatim>\<open>typing._GenericAlias\<close> there, it returns false. A special form is still answered
  by its name. On a legacy host that defines both names the function returns what the
  decision rule says, for every annotation: the bare sequence generic is base-generic and
  the sequence of integers is not.
\<close>

theorem is_base_generic_on_hosts:
  "is_base_generic typing_names_modern (GenericAlias k s origin args params)
     = Inl AttributeError
   \<and> is_base_generic typing_names_modern Sequence_of_int = Inl AttributeError
   \<and> is_base_generic typing_names_modern typing_Sequence_modern = Inr False
   \<and> is_base_generic typing_names_modern (SpecialForm m n)
       = Inr (base_generic_rule (SpecialForm m n))
   \<and> is_base_generic typing_names_legacy cls = Inr (base_generic_rule cls)
   \<and> is_base_generic typing_names_legacy typing_Sequence_legacy = Inr True
   \<and> is_base_generic typing_names_legacy Sequence_of_int = Inr False"
proof -
  have modern_alias: "is_base_generic typing_names_modern (GenericAlias k' s' origin' args' params')
      = Inl AttributeError" for k' s' origin' args' params'
    by (cases k')
      (simp_all add: is_base_generic_def priv_is_base_generic_def isinstance_def
        typing_getattr_def typing_names_modern_def)
  have modern_bare: "is_base_generic typing_names_modern typing_Sequence_modern = Inr False"
    by (simp add: is_base_generic_def priv_is_base_generic_def isinstance_def
        typing_getattr_def typing_names_modern_def typing_Sequence_modern_def special_alias_def)
  have modern_form: "is_base_generic typing_names_modern (SpecialForm m n)
      = Inr (base_generic_rule (SpecialForm m n))"
    by (auto simp: is_base_generic_def priv_is_base_generic_def isinstance_def
        typing_getattr_def typing_names_modern_def)
  have legacy_rule: "is_base_generic typing_names_legacy x = Inr (base_generic_rule x)" for x
  proof (cases x)
    case (GenericAlias k' s' origin' args' params')
    then show ?thesis
      by (cases k')
        (auto simp: is_base_generic_def priv_is_base_generic_def isinstance_def
          typing_getattr_def typing_names_legacy_def)
  qed (auto simp: is_base_generic_def priv_is_base_generic_def isinstance_def
      typing_getattr_def typing_names_legacy_def)
  have seq: "base_generic_rule typing_Sequence_legacy = True"
    by (simp add: typing_Sequence_legacy_def bare_alias_def abc_class_def typing_Generic_def
        typing_Protocol_def)
  have seq_int: "base_generic_rule Sequence_of_int = False"
    by (simp add: Sequence_of_int_def abc_class_def typing_Generic_def typing_Protocol_def)
  show ?thesis
    using modern_alias [of k s origin args params] modern_alias [of PlainAlias False "abc_class ''Sequence''"
        "[py_int]" "[]"] modern_bare modern_form legacy_rule seq seq_int
    by (simp add: Sequence_of_int_def)
qed

text \<open>
  C5. For every annotation, \<^verbatim>\<open>is_literal\<close> returns a boolean, never a failure: true
  exactly when the annotation's origin attribute is the literal-value marker, and so false
  when the annotation has no origin attribute at all. \<^verbatim>\<open>Literal[42]\<close> is a literal.
\<close>

theorem is_literal_origin:
  "is_literal cls = Inr (getattr cls ''__origin__'' = Inr PyLiteral)
   \<and> (getattr cls ''__origin__'' = Inl AttributeError \<longrightarrow> is_literal cls = Inr False)
   \<and> is_literal (GenericAlias PlainAlias False PyLiteral [Object ''int'' ''42'' None []] [])
       = Inr True"
proof -
  have "is_literal cls = Inr (getattr cls ''__origin__'' = Inr PyLiteral)"
    unfolding is_literal_def using getattr_error [of cls "''__origin__''"]
    by (auto split: sum.splits)
  moreover have
    "is_literal (GenericAlias PlainAlias False PyLiteral [Object ''int'' ''42'' None []] [])
       = Inr True"
    by (simp add: is_literal_def)
  ultimately show ?thesis by simp
qed

theorem is_literal_origin_witness:
  "getattr py_int ''__origin__'' = Inl AttributeError \<and> is_literal py_int = Inr False"
proof -
  have h: "getattr py_int ''__origin__'' = Inl AttributeError"
    by (simp add: py_int_def builtin_class_def)
  show ?thesis using h is_literal_origin [of py_int] by simp
qed

text \<open>
  C10. For every value \<open>cls\<close>, \<^verbatim>\<open>is_typed_dict\<close> returns a boolean and never fails: it is
  true exactly when the runtime type of \<open>cls\<close> is one of the metaclasses that the loop at
  import time recorded, one per helper of \<^verbatim>\<open>PyTypedDicts\<close>, each the type of the class
  created from that helper. Nothing else of \<open>cls\<close> is read: two objects of one runtime
  class get the same answer, whatever their names, modules and attributes.
\<close>

theorem is_typed_dict_runtime_type:
  "is_typed_dict PyTypedDicts cls =
     Inr (type_of cls \<in> set (map type_of_RealPyTypedDict PyTypedDicts))
   \<and> is_typed_dict PyTypedDicts (Object c n m attrs)
       = is_typed_dict PyTypedDicts (Object c n' m' attrs')"
  by (simp add: is_typed_dict_def TypedDictTypes_eq)

lemma is_typed_dict_examples:
  "TypedDictTypes [typing_TypedDict] = [OtherClass ''typing._TypedDictMeta'']"
  "is_typed_dict [typing_TypedDict] Movie = Inr True"
  "is_typed_dict [typing_TypedDict] py_int = Inr False"
  "is_typed_dict [typing_TypedDict] typing_TypedDict = Inr False"
  by (simp_all add: is_typed_dict_def TypedDictTypes_def type_of_RealPyTypedDict_def
      resolve_base_def typing_TypedDict_def Movie_def py_int_def builtin_class_def)

subsection \<open>Argument extraction\<close>


subsection \<open>Raise flags of the extraction functions\<close>

text \<open>
  C9, as stated, fails: \<^verbatim>\<open>get_named_tuple_field_types\<close> called without its flag raises on
  a class that has no field annotations (its default is to raise), and
  \<^verbatim>\<open>get_keys_for_typed_dict\<close>, which takes no flag at all, raises on a class that is not
  a structural record.
\<close>

theorem extraction_flag_counterexample:
  "get_named_tuple_field_types py_int None = Inl AttributeError
   \<and> get_keys_for_typed_dict py_int = Inl AttributeError"
  by (simp add: get_named_tuple_field_types_def priv_get_named_tuple_field_types_def
      get_keys_for_typed_dict_def py_int_def builtin_class_def)

text \<open>
  C9, amended. \<^verbatim>\<open>get_origin\<close> and \<^verbatim>\<open>get_named_tuple_field_types\<close> take an explicit
  raise-or-fallback flag. With the flag off neither raises: \<^verbatim>\<open>get_origin\<close> returns the
  origin or else the annotation itself, \<^verbatim>\<open>get_named_tuple_field_types\<close> the annotation
  table or else \<^verbatim>\<open>None\<close>. Left out, the flag of \<^verbatim>\<open>get_origin\<close> is off and the flag of
  \<^verbatim>\<open>get_named_tuple_field_types\<close> is on. \<^verbatim>\<open>get_keys_for_typed_dict\<close> takes no flag:
  it fails, and only ever with the missing-attribute failure, exactly when one of the two
  key attributes is absent, and returns the pair of them otherwise.
\<close>

theorem extraction_flags:
  "get_origin P cls None = get_origin P cls (Some False)
   \<and> get_origin P cls (Some False)
       = Inr (if P \<and> isinstance cls [types_UnionType] then typing_Union
              else case getattr cls ''__origin__'' of Inr origin \<Rightarrow> origin | Inl e \<Rightarrow> cls)
   \<and> get_named_tuple_field_types cls None = get_named_tuple_field_types cls (Some True)
   \<and> get_named_tuple_field_types cls (Some False)
       = Inr (case getattr cls ''__annotations__'' of
                Inr annotations \<Rightarrow> Some annotations
              | Inl e \<Rightarrow> None)
   \<and> (\<forall>e. get_keys_for_typed_dict cls = Inl e \<longrightarrow> e = AttributeError)
   \<and> (get_keys_for_typed_dict cls = Inl AttributeError) =
       (getattr cls ''__required_keys__'' = Inl AttributeError
        \<or> getattr cls ''__optional_keys__'' = Inl AttributeError)
   \<and> (\<forall>r opt. getattr cls ''__required_keys__'' = Inr r
                \<and> getattr cls ''__optional_keys__'' = Inr opt
         \<longrightarrow> get_keys_for_typed_dict cls = Inr (r, opt))"
proof -
  have a: "get_origin P cls None = get_origin P cls (Some False)"
    by (simp add: get_origin_def)
  have b: "get_origin P cls (Some False)
       = Inr (if P \<and> isinstance cls [types_UnionType] then typing_Union
              else case getattr cls ''__origin__'' of Inr origin \<Rightarrow> origin | Inl e \<Rightarrow> cls)"
    using getattr_error [of cls "''__origin__''"]
    by (auto simp: get_origin_def priv_get_origin_def split: sum.splits)
  have c: "get_named_tuple_field_types cls None = get_named_tuple_field_types cls (Some True)"
    by (simp add: get_named_tuple_field_types_def)
  have d: "get_named_tuple_field_types cls (Some False)
       = Inr (case getattr cls ''__annotations__'' of
                Inr annotations \<Rightarrow> Some annotations
              | Inl e \<Rightarrow> None)"
    using getattr_error [of cls "''__annotations__''"]
    by (auto simp: get_named_tuple_field_types_def priv_get_named_tuple_field_types_def
        split: sum.splits)
  have e: "\<forall>e. get_keys_for_typed_dict cls = Inl e \<longrightarrow> e = AttributeError"
    using getattr_error [of cls "''__required_keys__''"]
      getattr_error [of cls "''__optional_keys__''"]
    by (auto simp: get_keys_for_typed_dict_def split: sum.splits)
  have f: "(get_keys_for_typed_dict cls = Inl AttributeError) =
       (getattr cls ''__required_keys__'' = Inl AttributeError
        \<or> getattr cls ''__optional_keys__'' = Inl AttributeError)"
    using getattr_error [of cls "''__required_keys__''"]
      getattr_error [of cls "''__optional_keys__''"]
    by (auto simp: get_keys_for_typed_dict_def split: sum.splits)
  have g: "\<forall>r opt. getattr cls ''__required_keys__'' = Inr r
                \<and> getattr cls ''__optional_keys__'' = Inr opt
         \<longrightarrow> get_keys_for_typed_dict cls = Inr (r, opt)"
    by (simp add: get_keys_for_typed_dict_def)
  from a b c d e f g show ?thesis by blast
qed

theorem extraction_flags_witness:
  "getattr Movie ''__required_keys__'' = Inr (FrozenSet {''a'', ''b''})
   \<and> getattr Movie ''__optional_keys__'' = Inr (FrozenSet {''c''})
   \<and> get_keys_for_typed_dict Movie = Inr (FrozenSet {''a'', ''b''}, FrozenSet {''c''})
   \<and> get_keys_for_typed_dict py_int = Inl AttributeError"
proof -
  have h1: "getattr Movie ''__required_keys__'' = Inr (FrozenSet {''a'', ''b''})"
    by (simp add: Movie_def)
  have h2: "getattr Movie ''__optional_keys__'' = Inr (FrozenSet {''c''})"
    by (simp add: Movie_def)
  have h3: "get_keys_for_typed_dict py_int = Inl AttributeError"
    by (simp add: get_keys_for_typed_dict_def py_int_def builtin_class_def)
  show ?thesis
    using h1 h2 h3 extraction_flags [of True Movie] extraction_flags [of True py_int]
    by simp
qed

subsection \<open>Forward references\<close>

text \<open>
  C7. \<^verbatim>\<open>eval_forward_ref_if_needed\<close> returns every value that is neither text nor a
  placeholder exactly as it is, without calling the evaluator, and doing so again on what
  it returned changes nothing. Text and placeholders, and only they, go to
  \<^verbatim>\<open>eval_forward_ref\<close>. The result for a given text and declaring class is a function of
  the module table and the evaluator alone, so resolving the same text against the same
  class twice gives the same result both times.
\<close>

theorem eval_forward_ref_if_needed_passthrough:
  "((\<forall>t. base_type \<noteq> Str t) \<and> (\<forall>t a. base_type \<noteq> ForwardRef t a) \<longrightarrow>
      eval_forward_ref_if_needed eval_type P sys_modules base_type cls = Inr base_type
      \<and> (case eval_forward_ref_if_needed eval_type P sys_modules base_type cls of
            Inl e \<Rightarrow> Inl e
          | Inr r \<Rightarrow> eval_forward_ref_if_needed eval_type P sys_modules r cls)
          = Inr base_type)
   \<and> eval_forward_ref_if_needed eval_type P sys_modules (Str t) cls
       = eval_forward_ref eval_type P sys_modules (Str t) cls
   \<and> eval_forward_ref_if_needed eval_type P sys_modules (ForwardRef t a) cls
       = eval_forward_ref eval_type P sys_modules (ForwardRef t a) cls
   \<and> (eval_forward_ref eval_type P sys_modules (Str t) cls = first
        \<and> eval_forward_ref eval_type P sys_modules (Str t) cls = second
        \<longrightarrow> first = second)"
proof -
  have pass: "eval_forward_ref_if_needed eval_type P sys_modules b cls = Inr b"
    if "\<forall>t. b \<noteq> Str t" and "\<forall>t a. b \<noteq> ForwardRef t a" for b
    using that by (simp add: eval_forward_ref_if_needed_def isinstance_FREF)
  have deferred: "eval_forward_ref_if_needed eval_type P sys_modules b cls
                    = eval_forward_ref eval_type P sys_modules b cls"
    if "(\<exists>t. b = Str t) \<or> (\<exists>t a. b = ForwardRef t a)" for b
    using that by (simp add: eval_forward_ref_if_needed_def isinstance_FREF)
  have same: "eval_forward_ref eval_type P sys_modules (Str t) cls = first
        \<and> eval_forward_ref eval_type P sys_modules (Str t) cls = second
        \<longrightarrow> first = second"
    by auto
  show ?thesis
    using pass [of base_type] deferred [of "Str t"] deferred [of "ForwardRef t a"] same
    by simp
qed

theorem eval_forward_ref_if_needed_passthrough_witness:
  "(\<forall>t. py_int \<noteq> Str t) \<and> (\<forall>t a. py_int \<noteq> ForwardRef t a)
   \<and> eval_forward_ref_if_needed (\<lambda>p g l. Inl NameError) False [] py_int py_str = Inr py_int
   \<and> eval_forward_ref (\<lambda>p g l. Inr py_int) False [(''builtins'', [])] (Str (TName ''int''))
        py_str = Inr py_int"
proof -
  have h: "(\<forall>t. py_int \<noteq> Str t) \<and> (\<forall>t a. py_int \<noteq> ForwardRef t a)"
    by (simp add: py_int_def builtin_class_def)
  have e: "eval_forward_ref (\<lambda>p g l. Inr py_int) False [(''builtins'', [])]
             (Str (TName ''int'')) py_str = Inr py_int"
    by (simp add: eval_forward_ref_def py_str_def builtin_class_def)
  show ?thesis
    using h e eval_forward_ref_if_needed_passthrough
      [of py_int "\<lambda>p g l. Inl NameError" False "[]" py_str "TName ''int''" False
         "Inr py_int" "Inr py_int"]
    by simp
qed

text \<open>
  C8. Under the legacy strategy the text \<^verbatim>\<open>x | y\<close> reaches the evaluator as the
  placeholder of \<^verbatim>\<open>Union[x, y]\<close> (with the parts rewritten alike), together with the
  globals of the declaring class's module and the legacy locals; the text
  \<^verbatim>\<open>Union[x, y]\<close> reaches it as the same placeholder, so both evaluate alike. With the
  host's evaluator, and \<open>a\<close> and \<open>b\<close> names that the module binds to two classes, the
  text \<^verbatim>\<open>a | b\<close> and the text \<^verbatim>\<open>Union[a, b]\<close> both resolve, to the union type of the
  two classes.
\<close>

theorem legacy_light_union_resolves_as_heavy:
  "eval_forward_ref eval_type False sys_modules (Str (TOr x y)) cls =
     (case getattr_str cls ''__module__'' of
        Inl e \<Rightarrow> Inl e
      | Inr m \<Rightarrow>
          (case map_of sys_modules m of
             None \<Rightarrow> Inl KeyError
           | Some base_globals \<Rightarrow>
               eval_type
                 (ForwardRef
                    (TSub (TName ''Union'') [repl_or_with_union x, repl_or_with_union y]) False)
                 base_globals (Some [(''Union'', typing_Union)])))
   \<and> eval_forward_ref eval_type False sys_modules (Str (TSub (TName ''Union'') [x, y])) cls
       = eval_forward_ref eval_type False sys_modules (Str (TOr x y)) cls
   \<and> (host_evaluator eval_type \<and> getattr_str cls ''__module__'' = Inr m
        \<and> map_of sys_modules m = Some base_globals
        \<and> a \<noteq> ''Union'' \<and> b \<noteq> ''Union''
        \<and> map_of base_globals a = Some (Object ''type'' na ma attrs_a)
        \<and> map_of base_globals b = Some (Object ''type'' nb mb attrs_b)
        \<and> Object ''type'' na ma attrs_a \<noteq> Object ''type'' nb mb attrs_b
        \<and> Object ''type'' na ma attrs_a \<noteq> typing_Generic
        \<and> Object ''type'' nb mb attrs_b \<noteq> typing_Generic \<longrightarrow>
        eval_forward_ref eval_type False sys_modules (Str (TOr (TName a) (TName b))) cls
          = Inr (GenericAlias PlainAlias False typing_Union
                   [Object ''type'' na ma attrs_a, Object ''type'' nb mb attrs_b] [])
        \<and> eval_forward_ref eval_type False sys_modules
            (Str (TSub (TName ''Union'') [TName a, TName b])) cls
          = Inr (GenericAlias PlainAlias False typing_Union
                   [Object ''type'' na ma attrs_a, Object ''type'' nb mb attrs_b] []))"
proof -
  let ?A = "Object ''type'' na ma attrs_a" and ?B = "Object ''type'' nb mb attrs_b"
  let ?U = "GenericAlias PlainAlias False typing_Union [?A, ?B] []"
  have light: "eval_forward_ref eval_type False sys_modules (Str (TOr x y)) cls =
     (case getattr_str cls ''__module__'' of
        Inl e \<Rightarrow> Inl e
      | Inr m \<Rightarrow>
          (case map_of sys_modules m of
             None \<Rightarrow> Inl KeyError
           | Some base_globals \<Rightarrow>
               eval_type
                 (ForwardRef
                    (TSub (TName ''Union'') [repl_or_with_union x, repl_or_with_union y]) False)
                 base_globals (Some [(''Union'', typing_Union)])))" for x y
    by (simp add: eval_forward_ref_legacy_text split: sum.splits option.splits)
  have heavy:
    "eval_forward_ref eval_type False sys_modules (Str (TSub (TName ''Union'') [x, y])) cls
       = eval_forward_ref eval_type False sys_modules (Str (TOr x y)) cls" for x y
    by (simp add: eval_forward_ref_legacy_text split: sum.splits option.splits)
  have union: "eval_forward_ref eval_type False sys_modules (Str (TOr (TName a) (TName b))) cls
          = Inr ?U"
    if h: "host_evaluator eval_type" and m: "getattr_str cls ''__module__'' = Inr m"
      and g: "map_of sys_modules m = Some base_globals"
      and ab: "a \<noteq> ''Union''" "b \<noteq> ''Union''"
      and va: "map_of base_globals a = Some ?A" and vb: "map_of base_globals b = Some ?B"
      and ne: "?A \<noteq> ?B" and ng: "?A \<noteq> typing_Generic" "?B \<noteq> typing_Generic"
  proof -
    have "eval_placeholder [(''Union'', typing_Union)] base_globals
            (TSub (TName ''Union'') [TName a, TName b]) = Some (Inr ?U)"
      using ab va vb ne ng
      by (auto simp: eval_placeholder_def lookup_name_def subscribe_def Union_getitem_def
          union_of_def collect_type_vars_def typing_Union_def)
    from host_evaluatorD [OF h this] show ?thesis
      using m g by (simp add: light)
  qed
  from light [of x y] heavy [of x y] union heavy [of "TName a" "TName b"] show ?thesis
    by (simp del: repl_or_with_union.simps)
qed

theorem legacy_light_union_resolves_as_heavy_witness:
  "host_evaluator reference_eval_type
   \<and> getattr_str (Object ''type'' ''C'' (Some ''m'') []) ''__module__'' = Inr ''m''
   \<and> map_of module_with_builtins ''m'' = Some builtins_only
   \<and> map_of builtins_only ''int'' = Some py_int
   \<and> map_of builtins_only ''str'' = Some py_str
   \<and> eval_forward_ref reference_eval_type False module_with_builtins
        (Str (TOr (TName ''int'') (TName ''str''))) (Object ''type'' ''C'' (Some ''m'') [])
        = Inr (GenericAlias PlainAlias False typing_Union [py_int, py_str] [])
   \<and> eval_forward_ref reference_eval_type False module_with_builtins
        (Str (TSub (TName ''Union'') [TName ''int'', TName ''str'']))
        (Object ''type'' ''C'' (Some ''m'') [])
        = Inr (GenericAlias PlainAlias False typing_Union [py_int, py_str] [])"
proof -
  have h: "host_evaluator reference_eval_type" by (rule reference_eval_type_host)
  have m: "getattr_str (Object ''type'' ''C'' (Some ''m'') []) ''__module__'' = Inr ''m''"
    by simp
  have g: "map_of module_with_builtins ''m'' = Some builtins_only"
    by (simp add: module_with_builtins_def)
  have i: "map_of builtins_only ''int'' = Some (Object ''type'' ''int'' (Some ''builtins'') [])"
    by (simp add: builtins_only_def py_int_def builtin_class_def)
  have s: "map_of builtins_only ''str'' = Some (Object ''type'' ''str'' (Some ''builtins'') [])"
    by (simp add: builtins_only_def py_str_def builtin_class_def)
  have d:
    "Object ''type'' ''int'' (Some ''builtins'') [] \<noteq> Object ''type'' ''str'' (Some ''builtins'') []"
    "Object ''type'' ''int'' (Some ''builtins'') [] \<noteq> typing_Generic"
    "Object ''type'' ''str'' (Some ''builtins'') [] \<noteq> typing_Generic"
    "''int'' \<noteq> ''Union''" "''str'' \<noteq> ''Union''"
    by (simp_all add: typing_Generic_def)
  show ?thesis
    using h m g i s d
      legacy_light_union_resolves_as_heavy
        [of reference_eval_type module_with_builtins "TName ''int''" "TName ''str''"
            "Object ''type'' ''C'' (Some ''m'') []" "''m''" builtins_only "''int''" "''str''"
            "''int''" "Some ''builtins''" "[]" "''str''" "Some ''builtins''" "[]",
         THEN conjunct2, THEN conjunct2]
    by (simp add: py_int_def py_str_def builtin_class_def)
qed

text \<open>
  C6. Under the legacy strategy the locals given to the evaluator are the table that binds
  \<^verbatim>\<open>Union\<close> alone; the table of \<^verbatim>\<open>_get_typing_locals\<close>, which binds \<^verbatim>\<open>defaultdict\<close> to
  \<^verbatim>\<open>typing.DefaultDict\<close>, is built by a function that nothing calls. So, with the host's
  evaluator, a text that subscribes a name other than \<^verbatim>\<open>Union\<close> which the declaring
  class's module does not bind fails with the unbound-name failure:
  \<^verbatim>\<open>defaultdict[str, int]\<close> does, in a module that does not bind \<^verbatim>\<open>defaultdict\<close>. Given
  the table of \<^verbatim>\<open>_get_typing_locals\<close> as locals, the same evaluator resolves that text to
  \<^verbatim>\<open>typing.DefaultDict[str, int]\<close>.
\<close>

theorem legacy_locals_miss_container_names:
  "TYPING_LOCALS False = Some [(''Union'', typing_Union)]
   \<and> map_of priv_get_typing_locals ''defaultdict'' = Some typing_DefaultDict
   \<and> (host_evaluator eval_type \<and> map_of base_globals n = None \<and> n \<noteq> ''Union'' \<longrightarrow>
        eval_forward_ref eval_type False [(m, base_globals)] (Str (TSub (TName n) xs))
          (Object c cn (Some m) attrs) = Inl NameError)
   \<and> (host_evaluator eval_type \<and> map_of base_globals ''defaultdict'' = None \<longrightarrow>
        eval_forward_ref eval_type False [(m, base_globals)] (Str defaultdict_text)
          (Object c cn (Some m) attrs) = Inl NameError)
   \<and> (host_evaluator eval_type \<and> map_of base_globals ''str'' = Some py_str
        \<and> map_of base_globals ''int'' = Some py_int \<longrightarrow>
        eval_type (ForwardRef defaultdict_text False) base_globals (Some priv_get_typing_locals)
          = Inr (GenericAlias PlainAlias False (collections_class ''defaultdict'')
                   [py_str, py_int] []))"
proof -
  have table: "TYPING_LOCALS False = Some [(''Union'', typing_Union)]"
    by (simp add: TYPING_LOCALS_def)
  have full: "map_of priv_get_typing_locals ''defaultdict'' = Some typing_DefaultDict"
    by (simp add: priv_get_typing_locals_def)
  have fails: "eval_forward_ref eval_type False [(m, base_globals)] (Str (TSub (TName k) ys))
          (Object c cn (Some m) attrs) = Inl NameError"
    if h: "host_evaluator eval_type" and g: "map_of base_globals k = None"
      and u: "k \<noteq> ''Union''" for k ys
  proof -
    have "eval_placeholder [(''Union'', typing_Union)] base_globals
            (TSub (TName k) (map repl_or_with_union ys)) = Some (Inl NameError)"
      using g u by (simp add: eval_placeholder_def lookup_name_def)
    from host_evaluatorD [OF h this] show ?thesis
      by (simp add: eval_forward_ref_legacy_text)
  qed
  have resolves: "eval_type (ForwardRef defaultdict_text False) base_globals
          (Some priv_get_typing_locals)
          = Inr (GenericAlias PlainAlias False (collections_class ''defaultdict'')
                   [py_str, py_int] [])"
    if h: "host_evaluator eval_type" and s: "map_of base_globals ''str'' = Some py_str"
      and i: "map_of base_globals ''int'' = Some py_int"
  proof -
    have "eval_placeholder priv_get_typing_locals base_globals defaultdict_text
            = Some (Inr (GenericAlias PlainAlias False (collections_class ''defaultdict'')
                   [py_str, py_int] []))"
      using s i
      by (simp add: eval_placeholder_def defaultdict_text_def lookup_name_def
          priv_get_typing_locals_def subscribe_def typing_DefaultDict_def bare_alias_def
          typing_Union_def py_str_def py_int_def builtin_class_def collections_class_def
          typing_Generic_def collect_type_vars_def)
    from host_evaluatorD [OF h this] show ?thesis .
  qed
  from table full fails [of n xs]
    fails [of "''defaultdict''" "[TName ''str'', TName ''int'']"] resolves
  show ?thesis by (simp add: defaultdict_text_def)
qed

theorem legacy_locals_miss_container_names_witness:
  "host_evaluator reference_eval_type
   \<and> map_of builtins_only ''defaultdict'' = None
   \<and> ''defaultdict'' \<noteq> ''Union''
   \<and> map_of builtins_only ''str'' = Some py_str
   \<and> map_of builtins_only ''int'' = Some py_int
   \<and> eval_forward_ref reference_eval_type False [(''m'', builtins_only)] (Str defaultdict_text)
        (Object ''type'' ''C'' (Some ''m'') []) = Inl NameError
   \<and> reference_eval_type (ForwardRef defaultdict_text False) builtins_only
        (Some priv_get_typing_locals)
        = Inr (GenericAlias PlainAlias False (collections_class ''defaultdict'')
                 [py_str, py_int] [])"
proof -
  have h: "host_evaluator reference_eval_type" by (rule reference_eval_type_host)
  have g: "map_of builtins_only ''defaultdict'' = None" by (simp add: builtins_only_def)
  have s: "map_of builtins_only ''str'' = Some py_str" by (simp add: builtins_only_def)
  have i: "map_of builtins_only ''int'' = Some py_int" by (simp add: builtins_only_def)
  show ?thesis
    using h g s i
      legacy_locals_miss_container_names
        [of reference_eval_type builtins_only "''defaultdict''" "''m''"
            "[TName ''str'', TName ''int'']" "''type''" "''C''" "[]"]
    by simp
qed

end
